theory Spec2Isabelle
  imports Main
begin

section \<open>Data model\<close>

text \<open>
  The repository is a thin client over the storage data-plane REST API. Two operations
  are embedded here: \<open>queues.SetMetaData\<close> and \<open>blobs.AbortCopy\<close>, with the helper
  \<open>metadata.SetIntoHeaders\<close>. Go strings are byte sequences, so they are \<open>string\<close>.

  An error value is represented by the text that \<open>fmt\<close> renders for it at the one place
  where the code formats it (\<open>%v\<close> or \<open>%+v\<close>); \<open>fmt.Errorf\<close> is then concatenation onto
  the format's literal text. A nil \<open>error\<close> is \<open>None\<close>.
\<close>

type_synonym error = string

text \<open>
  \<open>client.Headers\<close> and \<open>client.QueryParams\<close> belong to the SDK the repository calls and
  are not part of it. Both are modelled as the sequence of the (name, value) pairs
  appended, in the order of the calls: every implementation of \<open>Append\<close> and \<open>Merge\<close>
  (overwriting or multi-valued) is a function of that sequence. \<open>&client.Headers{}\<close> and
  \<open>&client.QueryParams{}\<close> are the empty sequence.
\<close>

type_synonym Headers = "(string \<times> string) list"

type_synonym QueryParams = "(string \<times> string) list"

definition Append :: "(string \<times> string) list \<Rightarrow> string \<Rightarrow> string \<Rightarrow> (string \<times> string) list" where
  "Append h key val = h @ [(key, val)]"

definition Merge :: "Headers \<Rightarrow> Headers \<Rightarrow> Headers" where
  "Merge h h2 = h @ h2"

text \<open>
  A Go \<open>map[string]string\<close> is an association list in the order in which \<open>range\<close>
  visits the entries. The runtime chooses that order, so a property meant for the map is
  proved for every list. A nil map and an empty map are both \<open>[]\<close>.
\<close>

type_synonym MetaData = "(string \<times> string) list"

text \<open>\<open>odata.Query\<close> is never built by these operations; only its nil pointer occurs.\<close>

type_synonym ODataQuery = unit

record AbortCopyInput =
  CopyID :: string
  LeaseID :: "string option"

record SetMetaDataInput =
  MetaData :: MetaData

text \<open>
  The response structs \<open>SetMetaDataResponse\<close> and \<open>CopyAbortResponse\<close> have the same single
  field, a pointer to the SDK's response; the pointer is an option over the SDK's type.
\<close>

record 'resp SetMetaDataResponse =
  HttpResponse :: "'resp option"

record 'resp CopyAbortResponse =
  HttpResponse :: "'resp option"

section \<open>Options objects\<close>

text \<open>
  The options interface (\<open>ToHeaders\<close>, \<open>ToOData\<close>, \<open>ToQuery\<close>) has two implementations
  in the embedded files, one constructor each.
\<close>

datatype Options =
  setMetaDataOptions MetaData
| copyAbortOptions AbortCopyInput

text \<open>\<open>metadata.SetIntoHeaders\<close>: the loop over the map, one \<open>Append\<close> per entry.\<close>

fun SetIntoHeaders_loop :: "Headers \<Rightarrow> MetaData \<Rightarrow> Headers" where
  "SetIntoHeaders_loop headers [] = headers"
| "SetIntoHeaders_loop headers ((k, v) # rest) =
     SetIntoHeaders_loop (Append headers (''x-ms-meta-'' @ k) v) rest"

definition SetIntoHeaders :: "MetaData \<Rightarrow> Headers" where
  "SetIntoHeaders metaData = SetIntoHeaders_loop [] metaData"

text \<open>
  Modelled from the spec: \<open>metadata.SetMetaDataHeaders\<close>, which
  \<open>setMetaDataOptions.ToHeaders\<close> calls, is not among the source files; only its sibling
  \<open>SetIntoHeaders\<close> of the same package and signature is. The spec: "one header per
  metadata entry, each named with a fixed \<open>x-ms-meta-\<close> prefix followed by the key, value
  passed through unescaped".
\<close>

definition SetMetaDataHeaders :: "MetaData \<Rightarrow> Headers" where
  "SetMetaDataHeaders metaData = map (\<lambda>(k, v). (''x-ms-meta-'' @ k, v)) metaData"

fun ToHeaders :: "Options \<Rightarrow> Headers" where
  "ToHeaders (setMetaDataOptions metadata) = Merge [] (SetMetaDataHeaders metadata)"
| "ToHeaders (copyAbortOptions input) =
     (let headers = Append [] ''x-ms-copy-action'' ''abort'' in
      case LeaseID input of
        Some leaseID \<Rightarrow> Append headers ''x-ms-lease-id'' leaseID
      | None \<Rightarrow> headers)"

fun ToOData :: "Options \<Rightarrow> ODataQuery option" where
  "ToOData (setMetaDataOptions metadata) = None"
| "ToOData (copyAbortOptions input) = None"

fun ToQuery :: "Options \<Rightarrow> QueryParams" where
  "ToQuery (setMetaDataOptions metadata) = Append [] ''comp'' ''metadata''"
| "ToQuery (copyAbortOptions input) =
     Append (Append [] ''comp'' ''copy'') ''copyid'' (CopyID input)"

section \<open>Request options and the client\<close>

text \<open>
  \<open>client.RequestOptions\<close> as the two operations fill it; a field the code leaves out has
  Go's zero value (\<open>ContentType\<close> is \<open>""\<close> in \<open>AbortCopy\<close>). \<open>http.StatusNoContent\<close> is
  204 and \<open>http.MethodPut\<close> is \<open>"PUT"\<close>.
\<close>

record RequestOptions =
  ContentType :: string
  ExpectedStatusCodes :: "int list"
  HttpMethod :: string
  OptionsObject :: Options
  Path :: string

definition StatusNoContent :: int where
  "StatusNoContent = 204"

definition MethodPut :: string where
  "MethodPut = ''PUT''"

text \<open>
  The two calls into the SDK, \<open>c.Client.NewRequest(ctx, opts)\<close> and \<open>req.Execute(ctx)\<close>,
  are the fields of the client: what each returns in this call, the context included.
  \<open>NewRequest\<close> returns a request or an error (the request is not used when the error is
  non-nil); \<open>Execute\<close> returns a response pointer and an error, and the code reads both.
\<close>

record ('req, 'resp) Client =
  NewRequest :: "RequestOptions \<Rightarrow> error + 'req"
  Execute :: "'req \<Rightarrow> 'resp option \<times> error option"

text \<open>The calls an operation made into the SDK, in order, with their arguments.\<close>

datatype 'req call =
  NewRequestCall RequestOptions
| ExecuteCall 'req

text \<open>
  \<open>strings.ToLower\<close> of the Go standard library: a string of ASCII bytes only has
  \<open>A\<close> to \<open>Z\<close> moved to \<open>a\<close> to \<open>z\<close>; any other string goes through the Unicode mapping
  \<open>strings.Map(unicode.ToLower, s)\<close>, whose tables are a parameter here.
\<close>

definition isASCII :: "string \<Rightarrow> bool" where
  "isASCII s = list_all (\<lambda>c. of_char c < (128::nat)) s"

definition lowerByte :: "char \<Rightarrow> char" where
  "lowerByte c =
     (if of_char CHR ''A'' \<le> (of_char c :: nat) \<and> (of_char c :: nat) \<le> of_char CHR ''Z''
      then char_of (of_char c + (32::nat)) else c)"

definition ToLower :: "(string \<Rightarrow> string) \<Rightarrow> string \<Rightarrow> string" where
  "ToLower unicodeLower s = (if isASCII s then map lowerByte s else unicodeLower s)"

section \<open>The operations\<close>

text \<open>
  \<open>blobs.AbortCopy\<close>. The result is the pair the Go function returns, the named results
  \<open>resp\<close> and \<open>err\<close>, and the calls made into the SDK. \<open>resp\<close> starts as the zero struct.
\<close>

definition AbortCopy ::
  "('req, 'resp) Client \<Rightarrow> (string \<Rightarrow> string) \<Rightarrow> string \<Rightarrow> string \<Rightarrow> AbortCopyInput
     \<Rightarrow> ('resp CopyAbortResponse \<times> error option) \<times> 'req call list" where
  "AbortCopy c unicodeLower containerName blobName input =
     (let resp = \<lparr>CopyAbortResponse.HttpResponse = None\<rparr> in
      if containerName = '''' then
        ((resp, Some ''`containerName` cannot be an empty string''), [])
      else if ToLower unicodeLower containerName \<noteq> containerName then
        ((resp, Some ''`containerName` must be a lower-cased string''), [])
      else if blobName = '''' then
        ((resp, Some ''`blobName` cannot be an empty string''), [])
      else if CopyID input = '''' then
        ((resp, Some ''`input.CopyID` cannot be an empty string''), [])
      else
        let opts = \<lparr>ContentType = '''',
                    ExpectedStatusCodes = [StatusNoContent],
                    HttpMethod = MethodPut,
                    OptionsObject = copyAbortOptions input,
                    Path = ''/'' @ containerName @ ''/'' @ blobName\<rparr> in
        case NewRequest c opts of
          Inl err \<Rightarrow> ((resp, Some (''building request: '' @ err)), [NewRequestCall opts])
        | Inr req \<Rightarrow>
            (case Execute c req of
               (r, Some err) \<Rightarrow>
                 ((resp\<lparr>CopyAbortResponse.HttpResponse := r\<rparr>,
                   Some (''executing request: '' @ err)),
                  [NewRequestCall opts, ExecuteCall req])
             | (r, None) \<Rightarrow>
                 ((resp\<lparr>CopyAbortResponse.HttpResponse := r\<rparr>, None),
                  [NewRequestCall opts, ExecuteCall req])))"

text \<open>
  \<open>queues.SetMetaData\<close>. \<open>metadata.Validate\<close> is not among the source files; it is the
  parameter \<open>Validate\<close>, returning the error it reports or nil.
\<close>

definition SetMetaData ::
  "('req, 'resp) Client \<Rightarrow> (string \<Rightarrow> string) \<Rightarrow> (MetaData \<Rightarrow> error option) \<Rightarrow> string
     \<Rightarrow> SetMetaDataInput
     \<Rightarrow> ('resp SetMetaDataResponse \<times> error option) \<times> 'req call list" where
  "SetMetaData c unicodeLower Validate queueName input =
     (let resp = \<lparr>SetMetaDataResponse.HttpResponse = None\<rparr> in
      if queueName = '''' then
        ((resp, Some ''`queueName` cannot be an empty string''), [])
      else if ToLower unicodeLower queueName \<noteq> queueName then
        ((resp, Some ''`queueName` must be a lower-cased string''), [])
      else
        case Validate (MetaData input) of
          Some err \<Rightarrow> ((resp, Some (''`metadata` is not valid: '' @ err)), [])
        | None \<Rightarrow>
           (let opts = \<lparr>ContentType = ''application/xml; charset=utf-8'',
                        ExpectedStatusCodes = [StatusNoContent],
                        HttpMethod = MethodPut,
                        OptionsObject = setMetaDataOptions (MetaData input),
                        Path = ''/'' @ queueName\<rparr> in
            case NewRequest c opts of
              Inl err \<Rightarrow> ((resp, Some (''building request: '' @ err)), [NewRequestCall opts])
            | Inr req \<Rightarrow>
                (case Execute c req of
                   (r, Some err) \<Rightarrow>
                     ((resp\<lparr>SetMetaDataResponse.HttpResponse := r\<rparr>,
                       Some (''executing request: '' @ err)),
                      [NewRequestCall opts, ExecuteCall req])
                 | (r, None) \<Rightarrow>
                     ((resp\<lparr>SetMetaDataResponse.HttpResponse := r\<rparr>, None),
                      [NewRequestCall opts, ExecuteCall req]))))"

section \<open>Reading a result\<close>

text \<open>The three parts of an operation's result: \<open>resp\<close>, \<open>err\<close>, and the calls made.\<close>

definition respOf :: "('r \<times> error option) \<times> 'c list \<Rightarrow> 'r" where
  "respOf res = fst (fst res)"

definition errOf :: "('r \<times> error option) \<times> 'c list \<Rightarrow> error option" where
  "errOf res = snd (fst res)"

definition callsOf :: "('r \<times> error option) \<times> 'c list \<Rightarrow> 'c list" where
  "callsOf res = snd res"

section \<open>The request executor\<close>

text \<open>
  Modelled from the spec: the executor behind \<open>NewRequest\<close> and \<open>Execute\<close> is the SDK's,
  an external collaborator with no code here. The spec gives its boundary: it "performs
  the network call; returns either a response object or a transport-level error", and
  the response interpreter decides "Success: status code is a member of the expected
  set", "Failure: any other status code, or a transport error", with "the raw response
  still attached" on an unexpected status. \<open>outcome\<close> is what the network does in this
  call; the request built from the options is the options themselves.
\<close>

record Response =
  StatusCode :: int

definition executeRequest ::
  "error + Response \<Rightarrow> RequestOptions \<Rightarrow> Response option \<times> error option" where
  "executeRequest outcome req =
     (case outcome of
        Inl err \<Rightarrow> (None, Some err)
      | Inr r \<Rightarrow>
          if StatusCode r \<in> set (ExpectedStatusCodes req) then (Some r, None)
          else (Some r, Some ''unexpected status''))"

definition sdkClient :: "error + Response \<Rightarrow> (RequestOptions, Response) Client" where
  "sdkClient outcome = \<lparr>NewRequest = Inr, Execute = executeRequest outcome\<rparr>"

section \<open>Headers of the options objects\<close>

lemma SetIntoHeaders_loop_eq:
  "SetIntoHeaders_loop h md = h @ map (\<lambda>(k, v). (''x-ms-meta-'' @ k, v)) md"
  by (induction h md rule: SetIntoHeaders_loop.induct) (simp_all add: Append_def)

lemma map_of_prefixed:
  "map_of (map (\<lambda>(k, v). (p @ k, v)) md) h =
     (if take (length p) h = p then map_of md (drop (length p) h) else None)"
proof (induction md)
  case Nil
  show ?case by simp
next
  case (Cons e md)
  obtain k v where e: "e = (k, v)" by (cases e)
  show ?case
  proof (cases "h = p @ k")
    case True
    then show ?thesis using e by simp
  next
    case False
    then have "take (length p) h = p \<Longrightarrow> drop (length p) h \<noteq> k"
      by (metis append_take_drop_id)
    then show ?thesis using False e Cons.IH by auto
  qed
qed

lemma ToHeaders_setMetaData:
  "ToHeaders (setMetaDataOptions md) = map (\<lambda>(k, v). (''x-ms-meta-'' @ k, v)) md"
  by (simp add: Merge_def SetMetaDataHeaders_def)

section \<open>Lower-casing\<close>

lemma lowerByte_upper:
  assumes "of_char CHR ''A'' \<le> (of_char ch :: nat)" and "(of_char ch :: nat) \<le> of_char CHR ''Z''"
  shows "lowerByte ch \<noteq> ch"
proof
  assume "lowerByte ch = ch"
  then have "char_of (of_char ch + (32::nat)) = ch"
    using assms by (simp add: lowerByte_def)
  then have "of_char (char_of (of_char ch + (32::nat))) = (of_char ch :: nat)"
    by simp
  then have "(of_char ch + 32) mod 256 = (of_char ch :: nat)"
    by (simp only: of_char_of)
  then show False
    using assms by simp
qed

lemma ToLower_ascii_upper:
  assumes "isASCII s" and "ch \<in> set s"
    and "of_char CHR ''A'' \<le> (of_char ch :: nat)" and "(of_char ch :: nat) \<le> of_char CHR ''Z''"
  shows "ToLower u s \<noteq> s"
proof -
  have "map lowerByte s \<noteq> s"
  proof
    assume "map lowerByte s = s"
    then have "map lowerByte s = map id s" by simp
    then have "lowerByte ch = id ch" using assms(2) by (meson map_eq_conv)
    then show False using lowerByte_upper[OF assms(3,4)] by simp
  qed
  then show ?thesis using assms(1) by (simp add: ToLower_def)
qed

section \<open>What each operation returns\<close>

lemma AbortCopy_rejected:
  assumes "containerName = '''' \<or> ToLower u containerName \<noteq> containerName \<or>
           blobName = '''' \<or> CopyID input = ''''"
  shows "AbortCopy c u containerName blobName input =
           ((\<lparr>CopyAbortResponse.HttpResponse = None\<rparr>,
             Some (if containerName = '''' then ''`containerName` cannot be an empty string''
                   else if ToLower u containerName \<noteq> containerName
                     then ''`containerName` must be a lower-cased string''
                   else if blobName = '''' then ''`blobName` cannot be an empty string''
                   else ''`input.CopyID` cannot be an empty string'')), [])"
  using assms by (auto simp: AbortCopy_def Let_def)

lemma AbortCopy_accepted:
  assumes "containerName \<noteq> ''''" "ToLower u containerName = containerName"
          "blobName \<noteq> ''''" "CopyID input \<noteq> ''''"
  shows "AbortCopy c u containerName blobName input =
           (let opts = \<lparr>ContentType = '''', ExpectedStatusCodes = [204], HttpMethod = ''PUT'',
                        OptionsObject = copyAbortOptions input,
                        Path = ''/'' @ containerName @ ''/'' @ blobName\<rparr> in
            case NewRequest c opts of
              Inl err \<Rightarrow>
                ((\<lparr>CopyAbortResponse.HttpResponse = None\<rparr>, Some (''building request: '' @ err)),
                 [NewRequestCall opts])
            | Inr req \<Rightarrow>
                ((\<lparr>CopyAbortResponse.HttpResponse = fst (Execute c req)\<rparr>,
                  map_option ((@) ''executing request: '') (snd (Execute c req))),
                 [NewRequestCall opts, ExecuteCall req]))"
  using assms
  by (simp add: AbortCopy_def Let_def StatusNoContent_def MethodPut_def
           split: sum.splits prod.splits option.splits)

lemma SetMetaData_rejected:
  assumes "queueName = '''' \<or> ToLower u queueName \<noteq> queueName \<or> Validate (MetaData input) = Some e"
  shows "SetMetaData c u Validate queueName input =
           ((\<lparr>SetMetaDataResponse.HttpResponse = None\<rparr>,
             Some (if queueName = '''' then ''`queueName` cannot be an empty string''
                   else if ToLower u queueName \<noteq> queueName
                     then ''`queueName` must be a lower-cased string''
                   else ''`metadata` is not valid: '' @ e)), [])"
  using assms by (auto simp: SetMetaData_def Let_def)

lemma SetMetaData_accepted:
  assumes "queueName \<noteq> ''''" "ToLower u queueName = queueName" "Validate (MetaData input) = None"
  shows "SetMetaData c u Validate queueName input =
           (let opts = \<lparr>ContentType = ''application/xml; charset=utf-8'',
                        ExpectedStatusCodes = [204], HttpMethod = ''PUT'',
                        OptionsObject = setMetaDataOptions (MetaData input),
                        Path = ''/'' @ queueName\<rparr> in
            case NewRequest c opts of
              Inl err \<Rightarrow>
                ((\<lparr>SetMetaDataResponse.HttpResponse = None\<rparr>, Some (''building request: '' @ err)),
                 [NewRequestCall opts])
            | Inr req \<Rightarrow>
                ((\<lparr>SetMetaDataResponse.HttpResponse = fst (Execute c req)\<rparr>,
                  map_option ((@) ''executing request: '') (snd (Execute c req))),
                 [NewRequestCall opts, ExecuteCall req]))"
  using assms
  by (simp add: SetMetaData_def Let_def StatusNoContent_def MethodPut_def
           split: sum.splits prod.splits option.splits)

lemma AbortCopy_calls:
  assumes "containerName \<noteq> ''''" "ToLower u containerName = containerName"
          "blobName \<noteq> ''''" "CopyID input \<noteq> ''''"
  shows "\<exists>rest. callsOf (AbortCopy c u containerName blobName input) =
           NewRequestCall \<lparr>ContentType = '''', ExpectedStatusCodes = [204], HttpMethod = ''PUT'',
                            OptionsObject = copyAbortOptions input,
                            Path = ''/'' @ containerName @ ''/'' @ blobName\<rparr> # rest"
  by (simp add: AbortCopy_accepted[OF assms] callsOf_def Let_def split: sum.splits)

lemma SetMetaData_calls:
  assumes "queueName \<noteq> ''''" "ToLower u queueName = queueName" "Validate (MetaData input) = None"
  shows "\<exists>rest. callsOf (SetMetaData c u Validate queueName input) =
           NewRequestCall \<lparr>ContentType = ''application/xml; charset=utf-8'',
                            ExpectedStatusCodes = [204], HttpMethod = ''PUT'',
                            OptionsObject = setMetaDataOptions (MetaData input),
                            Path = ''/'' @ queueName\<rparr> # rest"
  by (simp add: SetMetaData_accepted[where Validate = Validate and input = input, OF assms]
        callsOf_def Let_def split: sum.splits)

lemma SetMetaData_cases:
  obtains
    (rejected) msg where
      "SetMetaData c u Validate queueName input =
         ((\<lparr>SetMetaDataResponse.HttpResponse = None\<rparr>, Some msg), [])"
  | (unbuilt) opts err where
      "NewRequest c opts = Inl err"
      "SetMetaData c u Validate queueName input =
         ((\<lparr>SetMetaDataResponse.HttpResponse = None\<rparr>, Some (''building request: '' @ err)),
          [NewRequestCall opts])"
  | (executed) opts req where
      "NewRequest c opts = Inr req"
      "SetMetaData c u Validate queueName input =
         ((\<lparr>SetMetaDataResponse.HttpResponse = fst (Execute c req)\<rparr>,
           map_option ((@) ''executing request: '') (snd (Execute c req))),
          [NewRequestCall opts, ExecuteCall req])"
proof (cases "queueName = '''' \<or> ToLower u queueName \<noteq> queueName \<or>
              Validate (MetaData input) \<noteq> None")
  case True
  then obtain e where "queueName = '''' \<or> ToLower u queueName \<noteq> queueName \<or>
                       Validate (MetaData input) = Some e"
    by (cases "Validate (MetaData input)") auto
  from SetMetaData_rejected[where Validate = Validate and input = input and c = c, OF this]
  show ?thesis by (rule rejected)
next
  case False
  then have ok: "queueName \<noteq> ''''" "ToLower u queueName = queueName"
    "Validate (MetaData input) = None"
    by auto
  note eq = SetMetaData_accepted[where Validate = Validate and input = input and c = c, OF ok]
  show ?thesis
  proof (cases "NewRequest c \<lparr>ContentType = ''application/xml; charset=utf-8'',
                        ExpectedStatusCodes = [204], HttpMethod = ''PUT'',
                        OptionsObject = setMetaDataOptions (MetaData input),
                        Path = ''/'' @ queueName\<rparr>")
    case (Inl err)
    show ?thesis using Inl by (intro unbuilt[OF Inl]) (simp add: eq Let_def)
  next
    case (Inr req)
    show ?thesis using Inr by (intro executed[OF Inr]) (simp add: eq Let_def)
  qed
qed

lemma AbortCopy_cases:
  obtains
    (rejected) msg where
      "AbortCopy c u containerName blobName input =
         ((\<lparr>CopyAbortResponse.HttpResponse = None\<rparr>, Some msg), [])"
  | (unbuilt) opts err where
      "NewRequest c opts = Inl err"
      "AbortCopy c u containerName blobName input =
         ((\<lparr>CopyAbortResponse.HttpResponse = None\<rparr>, Some (''building request: '' @ err)),
          [NewRequestCall opts])"
  | (executed) opts req where
      "NewRequest c opts = Inr req"
      "AbortCopy c u containerName blobName input =
         ((\<lparr>CopyAbortResponse.HttpResponse = fst (Execute c req)\<rparr>,
           map_option ((@) ''executing request: '') (snd (Execute c req))),
          [NewRequestCall opts, ExecuteCall req])"
proof (cases "containerName = '''' \<or> ToLower u containerName \<noteq> containerName \<or>
              blobName = '''' \<or> CopyID input = ''''")
  case True
  from AbortCopy_rejected[where c = c, OF this]
  show ?thesis by (rule rejected)
next
  case False
  then have ok: "containerName \<noteq> ''''" "ToLower u containerName = containerName"
    "blobName \<noteq> ''''" "CopyID input \<noteq> ''''"
    by auto
  note eq = AbortCopy_accepted[where c = c, OF ok]
  show ?thesis
  proof (cases "NewRequest c \<lparr>ContentType = '''', ExpectedStatusCodes = [204],
                        HttpMethod = ''PUT'', OptionsObject = copyAbortOptions input,
                        Path = ''/'' @ containerName @ ''/'' @ blobName\<rparr>")
    case (Inl err)
    show ?thesis using Inl by (intro unbuilt[OF Inl]) (simp add: eq Let_def)
  next
    case (Inr req)
    show ?thesis using Inr by (intro executed[OF Inr]) (simp add: eq Let_def)
  qed
qed

lemma executeRequest_status:
  "executeRequest (Inr r) req =
     (Some r, if StatusCode r \<in> set (ExpectedStatusCodes req) then None
              else Some ''unexpected status'')"
  by (simp add: executeRequest_def)

section \<open>Validation\<close>

text \<open>
  C1. A call to \<open>SetMetaData\<close> or \<open>AbortCopy\<close> whose inputs fail a validation check (an
  empty name, a queue or container name that \<open>strings.ToLower\<close> changes, an empty copy ID,
  metadata that the validator rejects) returns an error naming the offending input and
  makes no call to \<open>NewRequest\<close> or \<open>Execute\<close>.
\<close>

theorem validation_failure_makes_no_call:
  "(queueName = '''' \<or> ToLower u queueName \<noteq> queueName \<or> Validate (MetaData qinput) \<noteq> None \<longrightarrow>
      callsOf (SetMetaData c u Validate queueName qinput) = [] \<and>
      (\<exists>msg. errOf (SetMetaData c u Validate queueName qinput) = Some msg \<and>
         (msg = ''`queueName` cannot be an empty string'' \<or>
          msg = ''`queueName` must be a lower-cased string'' \<or>
          (\<exists>e. Validate (MetaData qinput) = Some e \<and> msg = ''`metadata` is not valid: '' @ e))))
   \<and>
   (containerName = '''' \<or> ToLower u containerName \<noteq> containerName \<or> blobName = '''' \<or>
    CopyID binput = '''' \<longrightarrow>
      callsOf (AbortCopy c' u containerName blobName binput) = [] \<and>
      (\<exists>msg. errOf (AbortCopy c' u containerName blobName binput) = Some msg \<and>
         (msg = ''`containerName` cannot be an empty string'' \<or>
          msg = ''`containerName` must be a lower-cased string'' \<or>
          msg = ''`blobName` cannot be an empty string'' \<or>
          msg = ''`input.CopyID` cannot be an empty string'')))"
proof (intro conjI impI)
  assume bad: "queueName = '''' \<or> ToLower u queueName \<noteq> queueName \<or> Validate (MetaData qinput) \<noteq> None"
  obtain e where e: "queueName = '''' \<or> ToLower u queueName \<noteq> queueName \<or>
                     Validate (MetaData qinput) = Some e"
    using bad by (cases "Validate (MetaData qinput)") auto
  note eq = SetMetaData_rejected[where Validate = Validate and input = qinput and c = c, OF e]
  show "callsOf (SetMetaData c u Validate queueName qinput) = []"
    by (simp add: callsOf_def eq)
  show "\<exists>msg. errOf (SetMetaData c u Validate queueName qinput) = Some msg \<and>
         (msg = ''`queueName` cannot be an empty string'' \<or>
          msg = ''`queueName` must be a lower-cased string'' \<or>
          (\<exists>e. Validate (MetaData qinput) = Some e \<and> msg = ''`metadata` is not valid: '' @ e))"
    using e by (auto simp: errOf_def eq)
next
  assume bad: "containerName = '''' \<or> ToLower u containerName \<noteq> containerName \<or> blobName = '''' \<or>
    CopyID binput = ''''"
  show "callsOf (AbortCopy c' u containerName blobName binput) = []"
    by (simp add: callsOf_def AbortCopy_rejected[OF bad])
  show "\<exists>msg. errOf (AbortCopy c' u containerName blobName binput) = Some msg \<and>
         (msg = ''`containerName` cannot be an empty string'' \<or>
          msg = ''`containerName` must be a lower-cased string'' \<or>
          msg = ''`blobName` cannot be an empty string'' \<or>
          msg = ''`input.CopyID` cannot be an empty string'')"
    by (simp add: errOf_def AbortCopy_rejected[OF bad])
qed

theorem validation_failure_makes_no_call_witness:
  "ToLower id ''MyQueue'' \<noteq> ''MyQueue'' \<and>
   callsOf (SetMetaData (sdkClient (Inr \<lparr>StatusCode = 204\<rparr>)) id (\<lambda>m. None) ''MyQueue''
              \<lparr>MetaData = [(''owner'', ''alice'')]\<rparr>) = [] \<and>
   errOf (SetMetaData (sdkClient (Inr \<lparr>StatusCode = 204\<rparr>)) id (\<lambda>m. None) ''MyQueue''
              \<lparr>MetaData = [(''owner'', ''alice'')]\<rparr>) \<noteq> None \<and>
   callsOf (AbortCopy (sdkClient (Inr \<lparr>StatusCode = 204\<rparr>)) id ''mycontainer'' ''myblob.txt''
              \<lparr>CopyID = '''', LeaseID = None\<rparr>) = [] \<and>
   errOf (AbortCopy (sdkClient (Inr \<lparr>StatusCode = 204\<rparr>)) id ''mycontainer'' ''myblob.txt''
              \<lparr>CopyID = '''', LeaseID = None\<rparr>) \<noteq> None"
proof -
  have h: "ToLower id ''MyQueue'' \<noteq> ''MyQueue''" by code_simp
  show ?thesis
    using h validation_failure_makes_no_call
      [of "''MyQueue''" id "\<lambda>m. None" "\<lparr>MetaData = [(''owner'', ''alice'')]\<rparr>"
          "sdkClient (Inr \<lparr>StatusCode = 204\<rparr>)" "''mycontainer''" "''myblob.txt''"
          "\<lparr>CopyID = '''', LeaseID = None\<rparr>" "sdkClient (Inr \<lparr>StatusCode = 204\<rparr>)"]
    by auto
qed

section \<open>The request of AbortCopy\<close>

text \<open>
  C2. For every \<open>AbortCopy\<close> call that passes validation, the headers of the options object
  handed to \<open>NewRequest\<close> are \<open>x-ms-copy-action: abort\<close>, followed by \<open>x-ms-lease-id\<close> with
  the supplied lease ID exactly when \<open>LeaseID\<close> is non-nil, and nothing else: looking up
  \<open>x-ms-lease-id\<close> gives the lease ID or nothing, and every other name is absent.
\<close>

theorem abort_copy_headers:
  assumes "containerName \<noteq> ''''" and "ToLower u containerName = containerName"
    and "blobName \<noteq> ''''" and "CopyID input \<noteq> ''''"
  shows "\<exists>opts rest.
           callsOf (AbortCopy c u containerName blobName input) = NewRequestCall opts # rest \<and>
           ToHeaders (OptionsObject opts) =
             (''x-ms-copy-action'', ''abort'') #
             (case LeaseID input of None \<Rightarrow> [] | Some l \<Rightarrow> [(''x-ms-lease-id'', l)]) \<and>
           map_of (ToHeaders (OptionsObject opts)) ''x-ms-copy-action'' = Some ''abort'' \<and>
           map_of (ToHeaders (OptionsObject opts)) ''x-ms-lease-id'' = LeaseID input \<and>
           (\<forall>name. name \<noteq> ''x-ms-copy-action'' \<and> name \<noteq> ''x-ms-lease-id'' \<longrightarrow>
              map_of (ToHeaders (OptionsObject opts)) name = None)"
proof -
  obtain rest where calls:
    "callsOf (AbortCopy c u containerName blobName input) =
       NewRequestCall \<lparr>ContentType = '''', ExpectedStatusCodes = [204], HttpMethod = ''PUT'',
                        OptionsObject = copyAbortOptions input,
                        Path = ''/'' @ containerName @ ''/'' @ blobName\<rparr> # rest"
    using AbortCopy_calls[OF assms] by blast
  show ?thesis
    unfolding calls
    by (intro exI conjI, rule refl)
       (simp_all add: Append_def Let_def split: option.splits)
qed

theorem abort_copy_headers_witness:
  "ToLower id ''mycontainer'' = ''mycontainer'' \<and>
   (\<exists>opts rest.
      callsOf (AbortCopy (sdkClient (Inr \<lparr>StatusCode = 204\<rparr>)) id ''mycontainer'' ''myblob.txt''
                 \<lparr>CopyID = ''abc123'', LeaseID = Some ''lease-1''\<rparr>) = NewRequestCall opts # rest \<and>
      ToHeaders (OptionsObject opts) =
        [(''x-ms-copy-action'', ''abort''), (''x-ms-lease-id'', ''lease-1'')]) \<and>
   (\<exists>opts rest.
      callsOf (AbortCopy (sdkClient (Inr \<lparr>StatusCode = 204\<rparr>)) id ''mycontainer'' ''myblob.txt''
                 \<lparr>CopyID = ''abc123'', LeaseID = None\<rparr>) = NewRequestCall opts # rest \<and>
      ToHeaders (OptionsObject opts) = [(''x-ms-copy-action'', ''abort'')] \<and>
      map_of (ToHeaders (OptionsObject opts)) ''x-ms-lease-id'' = None)"
proof -
  have lower: "ToLower id ''mycontainer'' = ''mycontainer''"
    by (simp add: ToLower_def isASCII_def lowerByte_def)
  have with_lease:
    "\<exists>opts rest.
      callsOf (AbortCopy (sdkClient (Inr \<lparr>StatusCode = 204\<rparr>)) id ''mycontainer'' ''myblob.txt''
                 \<lparr>CopyID = ''abc123'', LeaseID = Some ''lease-1''\<rparr>) = NewRequestCall opts # rest \<and>
      ToHeaders (OptionsObject opts) =
        [(''x-ms-copy-action'', ''abort''), (''x-ms-lease-id'', ''lease-1'')]"
    using abort_copy_headers
      [of "''mycontainer''" id "''myblob.txt''" "\<lparr>CopyID = ''abc123'', LeaseID = Some ''lease-1''\<rparr>"
          "sdkClient (Inr \<lparr>StatusCode = 204\<rparr>)", OF _ lower]
    by fastforce
  have without_lease:
    "\<exists>opts rest.
      callsOf (AbortCopy (sdkClient (Inr \<lparr>StatusCode = 204\<rparr>)) id ''mycontainer'' ''myblob.txt''
                 \<lparr>CopyID = ''abc123'', LeaseID = None\<rparr>) = NewRequestCall opts # rest \<and>
      ToHeaders (OptionsObject opts) = [(''x-ms-copy-action'', ''abort'')] \<and>
      map_of (ToHeaders (OptionsObject opts)) ''x-ms-lease-id'' = None"
    using abort_copy_headers
      [of "''mycontainer''" id "''myblob.txt''" "\<lparr>CopyID = ''abc123'', LeaseID = None\<rparr>"
          "sdkClient (Inr \<lparr>StatusCode = 204\<rparr>)", OF _ lower]
    by fastforce
  show ?thesis using lower with_lease without_lease by blast
qed

text \<open>
  C3. For every \<open>AbortCopy\<close> call that passes validation, the request options handed to
  \<open>NewRequest\<close> have method \<open>PUT\<close>, path \<open>/{containerName}/{blobName}\<close>, the query
  parameters \<open>comp=copy\<close> and \<open>copyid=<CopyID>\<close> and no other, and the expected status
  codes are the set \<open>{204}\<close>.
\<close>

theorem abort_copy_request:
  assumes "containerName \<noteq> ''''" and "ToLower u containerName = containerName"
    and "blobName \<noteq> ''''" and "CopyID input \<noteq> ''''"
  shows "\<exists>opts rest.
           callsOf (AbortCopy c u containerName blobName input) = NewRequestCall opts # rest \<and>
           HttpMethod opts = ''PUT'' \<and>
           Path opts = ''/'' @ containerName @ ''/'' @ blobName \<and>
           ToQuery (OptionsObject opts) = [(''comp'', ''copy''), (''copyid'', CopyID input)] \<and>
           ToOData (OptionsObject opts) = None \<and>
           set (ExpectedStatusCodes opts) = {204}"
proof -
  obtain rest where calls:
    "callsOf (AbortCopy c u containerName blobName input) =
       NewRequestCall \<lparr>ContentType = '''', ExpectedStatusCodes = [204], HttpMethod = ''PUT'',
                        OptionsObject = copyAbortOptions input,
                        Path = ''/'' @ containerName @ ''/'' @ blobName\<rparr> # rest"
    using AbortCopy_calls[OF assms] by blast
  show ?thesis
    unfolding calls
    by (intro exI conjI, rule refl) (simp_all add: Append_def)
qed

theorem abort_copy_request_witness:
  "ToLower id ''mycontainer'' = ''mycontainer'' \<and>
   (\<exists>opts rest.
      callsOf (AbortCopy (sdkClient (Inr \<lparr>StatusCode = 204\<rparr>)) id ''mycontainer'' ''myblob.txt''
                 \<lparr>CopyID = ''abc123'', LeaseID = None\<rparr>) = NewRequestCall opts # rest \<and>
      HttpMethod opts = ''PUT'' \<and>
      Path opts = ''/mycontainer/myblob.txt'' \<and>
      ToQuery (OptionsObject opts) = [(''comp'', ''copy''), (''copyid'', ''abc123'')] \<and>
      set (ExpectedStatusCodes opts) = {204})"
proof -
  have lower: "ToLower id ''mycontainer'' = ''mycontainer''"
    by (simp add: ToLower_def isASCII_def lowerByte_def)
  show ?thesis
    using lower abort_copy_request
      [of "''mycontainer''" id "''myblob.txt''" "\<lparr>CopyID = ''abc123'', LeaseID = None\<rparr>"
          "sdkClient (Inr \<lparr>StatusCode = 204\<rparr>)", OF _ lower]
    by fastforce
qed

section \<open>The request of SetMetaData\<close>

text \<open>
  C4. For every \<open>SetMetaData\<close> call that passes validation, the request options handed to
  \<open>NewRequest\<close> have method \<open>PUT\<close>, path \<open>/{queueName}\<close>, the single query parameter
  \<open>comp=metadata\<close>, content type \<open>application/xml; charset=utf-8\<close>, and the expected
  status codes are the set \<open>{204}\<close>.
\<close>

theorem set_metadata_request:
  assumes "queueName \<noteq> ''''" and "ToLower u queueName = queueName"
    and "Validate (MetaData input) = None"
  shows "\<exists>opts rest.
           callsOf (SetMetaData c u Validate queueName input) = NewRequestCall opts # rest \<and>
           HttpMethod opts = ''PUT'' \<and>
           Path opts = ''/'' @ queueName \<and>
           ToQuery (OptionsObject opts) = [(''comp'', ''metadata'')] \<and>
           ToOData (OptionsObject opts) = None \<and>
           ContentType opts = ''application/xml; charset=utf-8'' \<and>
           set (ExpectedStatusCodes opts) = {204}"
proof -
  obtain rest where calls:
    "callsOf (SetMetaData c u Validate queueName input) =
       NewRequestCall \<lparr>ContentType = ''application/xml; charset=utf-8'',
                        ExpectedStatusCodes = [204], HttpMethod = ''PUT'',
                        OptionsObject = setMetaDataOptions (MetaData input),
                        Path = ''/'' @ queueName\<rparr> # rest"
    using SetMetaData_calls[where Validate = Validate and input = input, OF assms] by blast
  show ?thesis
    unfolding calls
    by (intro exI conjI, rule refl) (simp_all add: Append_def)
qed

theorem set_metadata_request_witness:
  "ToLower id ''myqueue'' = ''myqueue'' \<and>
   (\<exists>opts rest.
      callsOf (SetMetaData (sdkClient (Inr \<lparr>StatusCode = 204\<rparr>)) id (\<lambda>m. None) ''myqueue''
                 \<lparr>MetaData = [(''owner'', ''alice'')]\<rparr>) = NewRequestCall opts # rest \<and>
      HttpMethod opts = ''PUT'' \<and>
      Path opts = ''/myqueue'' \<and>
      ToQuery (OptionsObject opts) = [(''comp'', ''metadata'')] \<and>
      ContentType opts = ''application/xml; charset=utf-8'' \<and>
      set (ExpectedStatusCodes opts) = {204})"
proof -
  have lower: "ToLower id ''myqueue'' = ''myqueue''"
    by (simp add: ToLower_def isASCII_def lowerByte_def)
  show ?thesis
    using lower set_metadata_request
      [where queueName = "''myqueue''" and u = id and Validate = "\<lambda>m. None"
         and input = "\<lparr>MetaData = [(''owner'', ''alice'')]\<rparr>"
         and c = "sdkClient (Inr \<lparr>StatusCode = 204\<rparr>)", OF _ lower]
    by fastforce
qed

text \<open>
  C5. For every metadata mapping, the headers of a \<open>SetMetaData\<close> request are one header
  per metadata entry, named \<open>x-ms-meta-\<close> followed by the entry's key and carrying the
  entry's value unchanged, and no other header: as many headers as entries, distinct
  names for distinct keys, and a name is present exactly when it is the prefix followed
  by a key. The loop of \<open>SetIntoHeaders\<close> computes the same headers.
\<close>

theorem set_metadata_headers:
  "ToHeaders (setMetaDataOptions md) = map (\<lambda>(k, v). (''x-ms-meta-'' @ k, v)) md \<and>
   SetIntoHeaders md = map (\<lambda>(k, v). (''x-ms-meta-'' @ k, v)) md \<and>
   length (ToHeaders (setMetaDataOptions md)) = length md \<and>
   map_of (ToHeaders (setMetaDataOptions md)) name =
     (if take 10 name = ''x-ms-meta-'' then map_of md (drop 10 name) else None) \<and>
   (distinct (map fst md) \<longrightarrow> distinct (map fst (ToHeaders (setMetaDataOptions md)))) \<and>
   (queueName \<noteq> '''' \<and> ToLower u queueName = queueName \<and> Validate (MetaData input) = None \<longrightarrow>
      (\<exists>opts rest.
         callsOf (SetMetaData c u Validate queueName input) = NewRequestCall opts # rest \<and>
         OptionsObject opts = setMetaDataOptions (MetaData input)))"
proof (intro conjI impI)
  show "ToHeaders (setMetaDataOptions md) = map (\<lambda>(k, v). (''x-ms-meta-'' @ k, v)) md"
    by (rule ToHeaders_setMetaData)
  show "SetIntoHeaders md = map (\<lambda>(k, v). (''x-ms-meta-'' @ k, v)) md"
    by (simp add: SetIntoHeaders_def SetIntoHeaders_loop_eq)
  show "length (ToHeaders (setMetaDataOptions md)) = length md"
    by (simp only: ToHeaders_setMetaData length_map)
  show "map_of (ToHeaders (setMetaDataOptions md)) name =
          (if take 10 name = ''x-ms-meta-'' then map_of md (drop 10 name) else None)"
  proof -
    have len: "length ''x-ms-meta-'' = (10::nat)" by simp
    show ?thesis by (simp only: ToHeaders_setMetaData map_of_prefixed len)
  qed
next
  assume d: "distinct (map fst md)"
  have "map fst (ToHeaders (setMetaDataOptions md)) = map ((@) ''x-ms-meta-'') (map fst md)"
    by (simp only: ToHeaders_setMetaData) (simp add: case_prod_beta comp_def)
  moreover have "distinct (map ((@) ''x-ms-meta-'') (map fst md))"
    using d by (simp only: distinct_map) (simp add: inj_on_def)
  ultimately show "distinct (map fst (ToHeaders (setMetaDataOptions md)))" by simp
next
  assume ok: "queueName \<noteq> '''' \<and> ToLower u queueName = queueName \<and> Validate (MetaData input) = None"
  then obtain rest where calls:
    "callsOf (SetMetaData c u Validate queueName input) =
       NewRequestCall \<lparr>ContentType = ''application/xml; charset=utf-8'',
                        ExpectedStatusCodes = [204], HttpMethod = ''PUT'',
                        OptionsObject = setMetaDataOptions (MetaData input),
                        Path = ''/'' @ queueName\<rparr> # rest"
    using SetMetaData_calls[where Validate = Validate and input = input and queueName = queueName and u = u]
    by blast
  show "\<exists>opts rest.
         callsOf (SetMetaData c u Validate queueName input) = NewRequestCall opts # rest \<and>
         OptionsObject opts = setMetaDataOptions (MetaData input)"
    unfolding calls by (intro exI conjI, rule refl) simp
qed

theorem set_metadata_headers_witness:
  "ToLower id ''myqueue'' = ''myqueue'' \<and>
   distinct (map fst [(''owner'', ''alice''), (''team'', ''a b'')]) \<and>
   ToHeaders (setMetaDataOptions [(''owner'', ''alice''), (''team'', ''a b'')]) =
     [(''x-ms-meta-owner'', ''alice''), (''x-ms-meta-team'', ''a b'')] \<and>
   distinct (map fst (ToHeaders (setMetaDataOptions [(''owner'', ''alice''), (''team'', ''a b'')]))) \<and>
   (\<exists>opts rest.
      callsOf (SetMetaData (sdkClient (Inr \<lparr>StatusCode = 204\<rparr>)) id (\<lambda>m. None) ''myqueue''
                 \<lparr>MetaData = [(''owner'', ''alice''), (''team'', ''a b'')]\<rparr>) =
        NewRequestCall opts # rest \<and>
      OptionsObject opts = setMetaDataOptions [(''owner'', ''alice''), (''team'', ''a b'')])"
proof -
  have lower: "ToLower id ''myqueue'' = ''myqueue''"
    by (simp add: ToLower_def isASCII_def lowerByte_def)
  show ?thesis
    using lower set_metadata_headers
      [where md = "[(''owner'', ''alice''), (''team'', ''a b'')]"
         and queueName = "''myqueue''" and u = id and Validate = "\<lambda>m. None"
         and input = "\<lparr>MetaData = [(''owner'', ''alice''), (''team'', ''a b'')]\<rparr>"
         and c = "sdkClient (Inr \<lparr>StatusCode = 204\<rparr>)"]
    by fastforce
qed

section \<open>Resource names\<close>

text \<open>
  C6, as stated: every resource-name parameter (\<open>queueName\<close>, \<open>containerName\<close>,
  \<open>blobName\<close>) that is empty or contains an upper-case character yields a validation
  error and no call. It fails for \<open>blobName\<close>: \<open>MyBlob.txt\<close> contains upper-case
  characters, and \<open>AbortCopy\<close> builds and executes the request for \<open>/mycontainer/MyBlob.txt\<close>
  and returns no error.
\<close>

theorem blob_name_upper_case_accepted_counterexample:
  "CHR ''M'' \<in> set ''MyBlob.txt'' \<and>
   ToLower id ''MyBlob.txt'' \<noteq> ''MyBlob.txt'' \<and>
   AbortCopy (sdkClient (Inr \<lparr>StatusCode = 204\<rparr>)) id ''mycontainer'' ''MyBlob.txt''
       \<lparr>CopyID = ''abc123'', LeaseID = None\<rparr> =
     ((\<lparr>CopyAbortResponse.HttpResponse = Some \<lparr>StatusCode = 204\<rparr>\<rparr>, None),
      [NewRequestCall \<lparr>ContentType = '''', ExpectedStatusCodes = [204], HttpMethod = ''PUT'',
                       OptionsObject = copyAbortOptions \<lparr>CopyID = ''abc123'', LeaseID = None\<rparr>,
                       Path = ''/mycontainer/MyBlob.txt''\<rparr>,
       ExecuteCall \<lparr>ContentType = '''', ExpectedStatusCodes = [204], HttpMethod = ''PUT'',
                    OptionsObject = copyAbortOptions \<lparr>CopyID = ''abc123'', LeaseID = None\<rparr>,
                    Path = ''/mycontainer/MyBlob.txt''\<rparr>])"
proof -
  have upper: "ToLower id ''MyBlob.txt'' \<noteq> ''MyBlob.txt''"
    by code_simp
  have lower: "ToLower id ''mycontainer'' = ''mycontainer''"
    by (simp add: ToLower_def isASCII_def lowerByte_def)
  show ?thesis
    using upper
    by (simp add: AbortCopy_accepted[OF _ lower] sdkClient_def executeRequest_def Let_def)
qed

text \<open>
  C6, amended: an empty \<open>queueName\<close>, \<open>containerName\<close> or \<open>blobName\<close>, and a \<open>queueName\<close>
  or \<open>containerName\<close> that \<open>strings.ToLower\<close> changes, yields a validation error and no
  call; an ASCII name with a letter \<open>A\<close> to \<open>Z\<close> is such a name. \<open>blobName\<close> is checked for
  emptiness only: with the other inputs valid, any non-empty \<open>blobName\<close> reaches
  \<open>NewRequest\<close>, whatever its case.
\<close>

theorem resource_name_validation:
  "(queueName = '''' \<or> ToLower u queueName \<noteq> queueName \<longrightarrow>
      callsOf (SetMetaData c u Validate queueName qinput) = [] \<and>
      errOf (SetMetaData c u Validate queueName qinput) \<noteq> None) \<and>
   (containerName = '''' \<or> ToLower u containerName \<noteq> containerName \<or> blobName = '''' \<longrightarrow>
      callsOf (AbortCopy c' u containerName blobName binput) = [] \<and>
      errOf (AbortCopy c' u containerName blobName binput) \<noteq> None) \<and>
   (isASCII name \<and> ch \<in> set name \<and>
    of_char CHR ''A'' \<le> (of_char ch :: nat) \<and> (of_char ch :: nat) \<le> of_char CHR ''Z'' \<longrightarrow>
      ToLower u name \<noteq> name) \<and>
   (containerName \<noteq> '''' \<and> ToLower u containerName = containerName \<and> blobName \<noteq> '''' \<and>
    CopyID binput \<noteq> '''' \<longrightarrow>
      (\<exists>opts rest. callsOf (AbortCopy c' u containerName blobName binput) = NewRequestCall opts # rest \<and>
         Path opts = ''/'' @ containerName @ ''/'' @ blobName))"
proof (intro conjI impI)
  assume bad: "queueName = '''' \<or> ToLower u queueName \<noteq> queueName"
  then have e: "queueName = '''' \<or> ToLower u queueName \<noteq> queueName \<or>
                Validate (MetaData qinput) = Some undefined"
    by blast
  note eq = SetMetaData_rejected[where Validate = Validate and input = qinput and c = c, OF e]
  show "callsOf (SetMetaData c u Validate queueName qinput) = []"
    by (simp add: callsOf_def eq)
  show "errOf (SetMetaData c u Validate queueName qinput) \<noteq> None"
    by (simp add: errOf_def eq)
next
  assume "containerName = '''' \<or> ToLower u containerName \<noteq> containerName \<or> blobName = ''''"
  then have bad: "containerName = '''' \<or> ToLower u containerName \<noteq> containerName \<or>
                  blobName = '''' \<or> CopyID binput = ''''"
    by blast
  show "callsOf (AbortCopy c' u containerName blobName binput) = []"
    by (simp add: callsOf_def AbortCopy_rejected[OF bad])
  show "errOf (AbortCopy c' u containerName blobName binput) \<noteq> None"
    by (simp add: errOf_def AbortCopy_rejected[OF bad])
next
  assume "isASCII name \<and> ch \<in> set name \<and>
    of_char CHR ''A'' \<le> (of_char ch :: nat) \<and> (of_char ch :: nat) \<le> of_char CHR ''Z''"
  then show "ToLower u name \<noteq> name"
    using ToLower_ascii_upper by blast
next
  assume ok: "containerName \<noteq> '''' \<and> ToLower u containerName = containerName \<and> blobName \<noteq> '''' \<and>
    CopyID binput \<noteq> ''''"
  then obtain rest where calls:
    "callsOf (AbortCopy c' u containerName blobName binput) =
       NewRequestCall \<lparr>ContentType = '''', ExpectedStatusCodes = [204], HttpMethod = ''PUT'',
                        OptionsObject = copyAbortOptions binput,
                        Path = ''/'' @ containerName @ ''/'' @ blobName\<rparr> # rest"
    using AbortCopy_calls by blast
  show "\<exists>opts rest. callsOf (AbortCopy c' u containerName blobName binput) = NewRequestCall opts # rest \<and>
         Path opts = ''/'' @ containerName @ ''/'' @ blobName"
    unfolding calls by (intro exI conjI, rule refl) simp
qed

theorem resource_name_validation_witness:
  "callsOf (SetMetaData (sdkClient (Inr \<lparr>StatusCode = 204\<rparr>)) id (\<lambda>m. None) ''''
              \<lparr>MetaData = []\<rparr>) = [] \<and>
   errOf (SetMetaData (sdkClient (Inr \<lparr>StatusCode = 204\<rparr>)) id (\<lambda>m. None) ''''
              \<lparr>MetaData = []\<rparr>) \<noteq> None \<and>
   callsOf (AbortCopy (sdkClient (Inr \<lparr>StatusCode = 204\<rparr>)) id ''mycontainer'' ''''
              \<lparr>CopyID = ''abc123'', LeaseID = None\<rparr>) = [] \<and>
   errOf (AbortCopy (sdkClient (Inr \<lparr>StatusCode = 204\<rparr>)) id ''mycontainer'' ''''
              \<lparr>CopyID = ''abc123'', LeaseID = None\<rparr>) \<noteq> None \<and>
   isASCII ''MyQueue'' \<and> CHR ''Q'' \<in> set ''MyQueue'' \<and> ToLower id ''MyQueue'' \<noteq> ''MyQueue'' \<and>
   ToLower id ''mycontainer'' = ''mycontainer'' \<and>
   (\<exists>opts rest.
      callsOf (AbortCopy (sdkClient (Inr \<lparr>StatusCode = 204\<rparr>)) id ''mycontainer'' ''MyBlob.txt''
                 \<lparr>CopyID = ''abc123'', LeaseID = None\<rparr>) = NewRequestCall opts # rest \<and>
      Path opts = ''/mycontainer/MyBlob.txt'')"
proof -
  have lower: "ToLower id ''mycontainer'' = ''mycontainer''"
    by (simp add: ToLower_def isASCII_def lowerByte_def)
  have ascii: "isASCII ''MyQueue''"
    by (simp add: isASCII_def)
  have rejected:
    "callsOf (SetMetaData (sdkClient (Inr \<lparr>StatusCode = 204\<rparr>)) id (\<lambda>m. None) ''''
              \<lparr>MetaData = []\<rparr>) = [] \<and>
     errOf (SetMetaData (sdkClient (Inr \<lparr>StatusCode = 204\<rparr>)) id (\<lambda>m. None) ''''
              \<lparr>MetaData = []\<rparr>) \<noteq> None \<and>
     callsOf (AbortCopy (sdkClient (Inr \<lparr>StatusCode = 204\<rparr>)) id ''mycontainer'' ''''
              \<lparr>CopyID = ''abc123'', LeaseID = None\<rparr>) = [] \<and>
     errOf (AbortCopy (sdkClient (Inr \<lparr>StatusCode = 204\<rparr>)) id ''mycontainer'' ''''
              \<lparr>CopyID = ''abc123'', LeaseID = None\<rparr>) \<noteq> None \<and>
     ToLower id ''MyQueue'' \<noteq> ''MyQueue''"
    using ascii resource_name_validation
      [where queueName = "''''" and u = id and Validate = "\<lambda>m. None"
         and qinput = "\<lparr>MetaData = []\<rparr>" and c = "sdkClient (Inr \<lparr>StatusCode = 204\<rparr>)"
         and containerName = "''mycontainer''" and blobName = "''''"
         and binput = "\<lparr>CopyID = ''abc123'', LeaseID = None\<rparr>"
         and c' = "sdkClient (Inr \<lparr>StatusCode = 204\<rparr>)"
         and name = "''MyQueue''" and ch = "CHR ''Q''"]
    by simp
  have accepted:
    "\<exists>opts rest.
      callsOf (AbortCopy (sdkClient (Inr \<lparr>StatusCode = 204\<rparr>)) id ''mycontainer'' ''MyBlob.txt''
                 \<lparr>CopyID = ''abc123'', LeaseID = None\<rparr>) = NewRequestCall opts # rest \<and>
      Path opts = ''/mycontainer/MyBlob.txt''"
    using lower resource_name_validation
      [where queueName = "''''" and u = id and Validate = "\<lambda>m. None"
         and qinput = "\<lparr>MetaData = []\<rparr>" and c = "sdkClient (Inr \<lparr>StatusCode = 204\<rparr>)"
         and containerName = "''mycontainer''" and blobName = "''MyBlob.txt''"
         and binput = "\<lparr>CopyID = ''abc123'', LeaseID = None\<rparr>"
         and c' = "sdkClient (Inr \<lparr>StatusCode = 204\<rparr>)"
         and name = "''MyQueue''" and ch = "CHR ''Q''"]
    by fastforce
  show ?thesis
    using lower ascii rejected accepted by simp
qed

section \<open>Interpreting the response\<close>

text \<open>
  C7. For every \<open>SetMetaData\<close> or \<open>AbortCopy\<close> call that passes validation and receives a
  response: when the status code is 204, the one expected code, the call returns the
  response and a nil error; for any other status code it returns a non-nil error, and
  the response is still attached to the result.
\<close>

theorem status_decides_result:
  "(queueName \<noteq> '''' \<and> ToLower u queueName = queueName \<and> Validate (MetaData qinput) = None \<longrightarrow>
      (StatusCode r = 204 \<longrightarrow>
         respOf (SetMetaData (sdkClient (Inr r)) u Validate queueName qinput) =
           \<lparr>SetMetaDataResponse.HttpResponse = Some r\<rparr> \<and>
         errOf (SetMetaData (sdkClient (Inr r)) u Validate queueName qinput) = None) \<and>
      (StatusCode r \<noteq> 204 \<longrightarrow>
         respOf (SetMetaData (sdkClient (Inr r)) u Validate queueName qinput) =
           \<lparr>SetMetaDataResponse.HttpResponse = Some r\<rparr> \<and>
         errOf (SetMetaData (sdkClient (Inr r)) u Validate queueName qinput) \<noteq> None))
   \<and>
   (containerName \<noteq> '''' \<and> ToLower u containerName = containerName \<and> blobName \<noteq> '''' \<and>
    CopyID binput \<noteq> '''' \<longrightarrow>
      (StatusCode r = 204 \<longrightarrow>
         respOf (AbortCopy (sdkClient (Inr r)) u containerName blobName binput) =
           \<lparr>CopyAbortResponse.HttpResponse = Some r\<rparr> \<and>
         errOf (AbortCopy (sdkClient (Inr r)) u containerName blobName binput) = None) \<and>
      (StatusCode r \<noteq> 204 \<longrightarrow>
         respOf (AbortCopy (sdkClient (Inr r)) u containerName blobName binput) =
           \<lparr>CopyAbortResponse.HttpResponse = Some r\<rparr> \<and>
         errOf (AbortCopy (sdkClient (Inr r)) u containerName blobName binput) \<noteq> None))"
proof (intro conjI impI)
  assume ok: "queueName \<noteq> '''' \<and> ToLower u queueName = queueName \<and> Validate (MetaData qinput) = None"
  have eq: "SetMetaData (sdkClient (Inr r)) u Validate queueName qinput =
              ((\<lparr>SetMetaDataResponse.HttpResponse = Some r\<rparr>,
                if StatusCode r = 204 then None else Some ''executing request: unexpected status''),
               [NewRequestCall \<lparr>ContentType = ''application/xml; charset=utf-8'',
                                ExpectedStatusCodes = [204], HttpMethod = ''PUT'',
                                OptionsObject = setMetaDataOptions (MetaData qinput),
                                Path = ''/'' @ queueName\<rparr>,
                ExecuteCall \<lparr>ContentType = ''application/xml; charset=utf-8'',
                             ExpectedStatusCodes = [204], HttpMethod = ''PUT'',
                             OptionsObject = setMetaDataOptions (MetaData qinput),
                             Path = ''/'' @ queueName\<rparr>])"
    using ok
    by (simp add: SetMetaData_accepted[where Validate = Validate and input = qinput]
          sdkClient_def executeRequest_status Let_def)
  {
    assume "StatusCode r = 204"
    then show "respOf (SetMetaData (sdkClient (Inr r)) u Validate queueName qinput) =
                 \<lparr>SetMetaDataResponse.HttpResponse = Some r\<rparr>"
      and "errOf (SetMetaData (sdkClient (Inr r)) u Validate queueName qinput) = None"
      by (simp_all add: eq respOf_def errOf_def)
  }
  {
    assume "StatusCode r \<noteq> 204"
    then show "respOf (SetMetaData (sdkClient (Inr r)) u Validate queueName qinput) =
                 \<lparr>SetMetaDataResponse.HttpResponse = Some r\<rparr>"
      and "errOf (SetMetaData (sdkClient (Inr r)) u Validate queueName qinput) \<noteq> None"
      by (simp_all add: eq respOf_def errOf_def)
  }
next
  assume ok: "containerName \<noteq> '''' \<and> ToLower u containerName = containerName \<and> blobName \<noteq> '''' \<and>
    CopyID binput \<noteq> ''''"
  have eq: "AbortCopy (sdkClient (Inr r)) u containerName blobName binput =
              ((\<lparr>CopyAbortResponse.HttpResponse = Some r\<rparr>,
                if StatusCode r = 204 then None else Some ''executing request: unexpected status''),
               [NewRequestCall \<lparr>ContentType = '''', ExpectedStatusCodes = [204],
                                HttpMethod = ''PUT'', OptionsObject = copyAbortOptions binput,
                                Path = ''/'' @ containerName @ ''/'' @ blobName\<rparr>,
                ExecuteCall \<lparr>ContentType = '''', ExpectedStatusCodes = [204],
                             HttpMethod = ''PUT'', OptionsObject = copyAbortOptions binput,
                             Path = ''/'' @ containerName @ ''/'' @ blobName\<rparr>])"
    using ok
    by (simp add: AbortCopy_accepted sdkClient_def executeRequest_status Let_def)
  {
    assume "StatusCode r = 204"
    then show "respOf (AbortCopy (sdkClient (Inr r)) u containerName blobName binput) =
                 \<lparr>CopyAbortResponse.HttpResponse = Some r\<rparr>"
      and "errOf (AbortCopy (sdkClient (Inr r)) u containerName blobName binput) = None"
      by (simp_all add: eq respOf_def errOf_def)
  }
  {
    assume "StatusCode r \<noteq> 204"
    then show "respOf (AbortCopy (sdkClient (Inr r)) u containerName blobName binput) =
                 \<lparr>CopyAbortResponse.HttpResponse = Some r\<rparr>"
      and "errOf (AbortCopy (sdkClient (Inr r)) u containerName blobName binput) \<noteq> None"
      by (simp_all add: eq respOf_def errOf_def)
  }
qed

theorem status_decides_result_witness:
  "ToLower id ''myqueue'' = ''myqueue'' \<and> ToLower id ''mycontainer'' = ''mycontainer'' \<and>
   errOf (SetMetaData (sdkClient (Inr \<lparr>StatusCode = 204\<rparr>)) id (\<lambda>m. None) ''myqueue''
            \<lparr>MetaData = [(''owner'', ''alice'')]\<rparr>) = None \<and>
   respOf (AbortCopy (sdkClient (Inr \<lparr>StatusCode = 204\<rparr>)) id ''mycontainer'' ''myblob.txt''
            \<lparr>CopyID = ''abc123'', LeaseID = None\<rparr>) =
     \<lparr>CopyAbortResponse.HttpResponse = Some \<lparr>StatusCode = 204\<rparr>\<rparr> \<and>
   errOf (AbortCopy (sdkClient (Inr \<lparr>StatusCode = 204\<rparr>)) id ''mycontainer'' ''myblob.txt''
            \<lparr>CopyID = ''abc123'', LeaseID = None\<rparr>) = None \<and>
   errOf (SetMetaData (sdkClient (Inr \<lparr>StatusCode = 404\<rparr>)) id (\<lambda>m. None) ''myqueue''
            \<lparr>MetaData = [(''owner'', ''alice'')]\<rparr>) \<noteq> None \<and>
   respOf (AbortCopy (sdkClient (Inr \<lparr>StatusCode = 409\<rparr>)) id ''mycontainer'' ''myblob.txt''
            \<lparr>CopyID = ''abc123'', LeaseID = None\<rparr>) =
     \<lparr>CopyAbortResponse.HttpResponse = Some \<lparr>StatusCode = 409\<rparr>\<rparr> \<and>
   errOf (AbortCopy (sdkClient (Inr \<lparr>StatusCode = 409\<rparr>)) id ''mycontainer'' ''myblob.txt''
            \<lparr>CopyID = ''abc123'', LeaseID = None\<rparr>) \<noteq> None"
proof -
  have q: "ToLower id ''myqueue'' = ''myqueue''"
    by (simp add: ToLower_def isASCII_def lowerByte_def)
  have b: "ToLower id ''mycontainer'' = ''mycontainer''"
    by (simp add: ToLower_def isASCII_def lowerByte_def)
  note at = status_decides_result
      [where queueName = "''myqueue''" and u = id and Validate = "\<lambda>m. None"
         and qinput = "\<lparr>MetaData = [(''owner'', ''alice'')]\<rparr>"
         and containerName = "''mycontainer''" and blobName = "''myblob.txt''"
         and binput = "\<lparr>CopyID = ''abc123'', LeaseID = None\<rparr>"]
  show ?thesis
    using q b at[where r = "\<lparr>StatusCode = 204\<rparr>"] at[where r = "\<lparr>StatusCode = 404\<rparr>"]
      at[where r = "\<lparr>StatusCode = 409\<rparr>"]
    by simp
qed

section \<open>Errors of the two stages\<close>

text \<open>
  C8. In every \<open>SetMetaData\<close> or \<open>AbortCopy\<close> call, an error returned by \<open>NewRequest\<close> is
  returned to the caller as \<open>building request: \<close> followed by that error, and \<open>Execute\<close>
  is then not called; an error returned by \<open>Execute\<close> is returned as
  \<open>executing request: \<close> followed by that error. The two texts are never equal, so the
  stage can be read off the error, and neither error is dropped.
\<close>

theorem errors_carry_stage:
  "(NewRequestCall opts \<in> set (callsOf (SetMetaData c u Validate queueName qinput)) \<and>
    NewRequest c opts = Inl e \<longrightarrow>
      errOf (SetMetaData c u Validate queueName qinput) = Some (''building request: '' @ e) \<and>
      callsOf (SetMetaData c u Validate queueName qinput) = [NewRequestCall opts]) \<and>
   (ExecuteCall req \<in> set (callsOf (SetMetaData c u Validate queueName qinput)) \<and>
    snd (Execute c req) = Some e' \<longrightarrow>
      errOf (SetMetaData c u Validate queueName qinput) = Some (''executing request: '' @ e')) \<and>
   (NewRequestCall opts' \<in> set (callsOf (AbortCopy c' u containerName blobName binput)) \<and>
    NewRequest c' opts' = Inl e \<longrightarrow>
      errOf (AbortCopy c' u containerName blobName binput) = Some (''building request: '' @ e) \<and>
      callsOf (AbortCopy c' u containerName blobName binput) = [NewRequestCall opts']) \<and>
   (ExecuteCall req' \<in> set (callsOf (AbortCopy c' u containerName blobName binput)) \<and>
    snd (Execute c' req') = Some e' \<longrightarrow>
      errOf (AbortCopy c' u containerName blobName binput) = Some (''executing request: '' @ e')) \<and>
   ''building request: '' @ e \<noteq> ''executing request: '' @ e'"
proof (intro conjI impI)
  assume h: "NewRequestCall opts \<in> set (callsOf (SetMetaData c u Validate queueName qinput)) \<and>
    NewRequest c opts = Inl e"
  show "errOf (SetMetaData c u Validate queueName qinput) = Some (''building request: '' @ e)"
    using h by (cases rule: SetMetaData_cases[of c u Validate queueName qinput])
      (auto simp: callsOf_def errOf_def)
  show "callsOf (SetMetaData c u Validate queueName qinput) = [NewRequestCall opts]"
    using h by (cases rule: SetMetaData_cases[of c u Validate queueName qinput])
      (auto simp: callsOf_def errOf_def)
next
  assume h: "ExecuteCall req \<in> set (callsOf (SetMetaData c u Validate queueName qinput)) \<and>
    snd (Execute c req) = Some e'"
  show "errOf (SetMetaData c u Validate queueName qinput) = Some (''executing request: '' @ e')"
    using h by (cases rule: SetMetaData_cases[of c u Validate queueName qinput])
      (auto simp: callsOf_def errOf_def)
next
  assume h: "NewRequestCall opts' \<in> set (callsOf (AbortCopy c' u containerName blobName binput)) \<and>
    NewRequest c' opts' = Inl e"
  show "errOf (AbortCopy c' u containerName blobName binput) = Some (''building request: '' @ e)"
    using h by (cases rule: AbortCopy_cases[of c' u containerName blobName binput])
      (auto simp: callsOf_def errOf_def)
  show "callsOf (AbortCopy c' u containerName blobName binput) = [NewRequestCall opts']"
    using h by (cases rule: AbortCopy_cases[of c' u containerName blobName binput])
      (auto simp: callsOf_def errOf_def)
next
  assume h: "ExecuteCall req' \<in> set (callsOf (AbortCopy c' u containerName blobName binput)) \<and>
    snd (Execute c' req') = Some e'"
  show "errOf (AbortCopy c' u containerName blobName binput) = Some (''executing request: '' @ e')"
    using h by (cases rule: AbortCopy_cases[of c' u containerName blobName binput])
      (auto simp: callsOf_def errOf_def)
next
  show "''building request: '' @ e \<noteq> ''executing request: '' @ e'"
    by simp
qed

theorem errors_carry_stage_witness:
  "errOf (SetMetaData \<lparr>NewRequest = \<lambda>opts. Inl ''marshal failed'',
                         Execute = executeRequest (Inr \<lparr>StatusCode = 204\<rparr>)\<rparr>
            id (\<lambda>m. None) ''myqueue'' \<lparr>MetaData = [(''owner'', ''alice'')]\<rparr>) =
     Some ''building request: marshal failed'' \<and>
   errOf (SetMetaData (sdkClient (Inl ''context canceled'')) id (\<lambda>m. None) ''myqueue''
            \<lparr>MetaData = [(''owner'', ''alice'')]\<rparr>) =
     Some ''executing request: context canceled'' \<and>
   errOf (AbortCopy \<lparr>NewRequest = \<lambda>opts. Inl ''marshal failed'',
                       Execute = executeRequest (Inr \<lparr>StatusCode = 204\<rparr>)\<rparr>
            id ''mycontainer'' ''myblob.txt'' \<lparr>CopyID = ''abc123'', LeaseID = None\<rparr>) =
     Some ''building request: marshal failed'' \<and>
   errOf (AbortCopy (sdkClient (Inl ''context canceled'')) id ''mycontainer'' ''myblob.txt''
            \<lparr>CopyID = ''abc123'', LeaseID = None\<rparr>) =
     Some ''executing request: context canceled''"
proof -
  let ?qopts = "\<lparr>ContentType = ''application/xml; charset=utf-8'',
                  ExpectedStatusCodes = [204], HttpMethod = ''PUT'',
                  OptionsObject = setMetaDataOptions [(''owner'', ''alice'')],
                  Path = ''/myqueue''\<rparr>"
  let ?bopts = "\<lparr>ContentType = '''', ExpectedStatusCodes = [204], HttpMethod = ''PUT'',
                  OptionsObject = copyAbortOptions \<lparr>CopyID = ''abc123'', LeaseID = None\<rparr>,
                  Path = ''/mycontainer/myblob.txt''\<rparr>"
  let ?unbuilt = "\<lparr>NewRequest = \<lambda>opts. Inl ''marshal failed'',
                    Execute = executeRequest (Inr \<lparr>StatusCode = 204\<rparr>)\<rparr>"
  note evals = SetMetaData_def AbortCopy_def callsOf_def ToLower_def isASCII_def lowerByte_def
    Let_def sdkClient_def executeRequest_def StatusNoContent_def MethodPut_def
  have built_q: "NewRequestCall ?qopts \<in> set (callsOf (SetMetaData ?unbuilt id (\<lambda>m. None) ''myqueue''
                   \<lparr>MetaData = [(''owner'', ''alice'')]\<rparr>))"
    by (simp add: evals)
  have built_b: "NewRequestCall ?bopts \<in> set (callsOf (AbortCopy ?unbuilt id ''mycontainer''
                   ''myblob.txt'' \<lparr>CopyID = ''abc123'', LeaseID = None\<rparr>))"
    by (simp add: evals)
  have run_q: "ExecuteCall ?qopts \<in> set (callsOf (SetMetaData (sdkClient (Inl ''context canceled''))
                   id (\<lambda>m. None) ''myqueue'' \<lparr>MetaData = [(''owner'', ''alice'')]\<rparr>))"
    by (simp add: evals)
  have run_b: "ExecuteCall ?bopts \<in> set (callsOf (AbortCopy (sdkClient (Inl ''context canceled''))
                   id ''mycontainer'' ''myblob.txt'' \<lparr>CopyID = ''abc123'', LeaseID = None\<rparr>))"
    by (simp add: evals)
  have failed: "snd (Execute (sdkClient (Inl ''context canceled'')) ?qopts) = Some ''context canceled''"
    "snd (Execute (sdkClient (Inl ''context canceled'')) ?bopts) = Some ''context canceled''"
    by (simp_all add: sdkClient_def executeRequest_def)
  show ?thesis
    using built_q built_b run_q run_b failed
      errors_carry_stage
        [where c = ?unbuilt and c' = ?unbuilt and opts = ?qopts and opts' = ?bopts
           and e = "''marshal failed''" and u = id and Validate = "\<lambda>m. None"
           and queueName = "''myqueue''" and qinput = "\<lparr>MetaData = [(''owner'', ''alice'')]\<rparr>"
           and containerName = "''mycontainer''" and blobName = "''myblob.txt''"
           and binput = "\<lparr>CopyID = ''abc123'', LeaseID = None\<rparr>"
           and req = ?qopts and req' = ?bopts and e' = "''context canceled''"]
      errors_carry_stage
        [where c = "sdkClient (Inl ''context canceled'')"
           and c' = "sdkClient (Inl ''context canceled'')" and opts = ?qopts and opts' = ?bopts
           and e = "''marshal failed''" and u = id and Validate = "\<lambda>m. None"
           and queueName = "''myqueue''" and qinput = "\<lparr>MetaData = [(''owner'', ''alice'')]\<rparr>"
           and containerName = "''mycontainer''" and blobName = "''myblob.txt''"
           and binput = "\<lparr>CopyID = ''abc123'', LeaseID = None\<rparr>"
           and req = ?qopts and req' = ?bopts and e' = "''context canceled''"]
    by simp
qed

text \<open>
  C9. A \<open>SetMetaData\<close> or \<open>AbortCopy\<close> call that returns without having called \<open>Execute\<close>,
  that is during validation or request building, returns an error together with the zero
  response struct: its \<open>HttpResponse\<close> is nil.
\<close>

theorem no_response_before_execute:
  "((\<forall>req. ExecuteCall req \<notin> set (callsOf (SetMetaData c u Validate queueName qinput))) \<longrightarrow>
      respOf (SetMetaData c u Validate queueName qinput) =
        \<lparr>SetMetaDataResponse.HttpResponse = None\<rparr> \<and>
      errOf (SetMetaData c u Validate queueName qinput) \<noteq> None) \<and>
   ((\<forall>req. ExecuteCall req \<notin> set (callsOf (AbortCopy c' u containerName blobName binput))) \<longrightarrow>
      respOf (AbortCopy c' u containerName blobName binput) =
        \<lparr>CopyAbortResponse.HttpResponse = None\<rparr> \<and>
      errOf (AbortCopy c' u containerName blobName binput) \<noteq> None)"
proof (intro conjI impI)
  assume h: "\<forall>req. ExecuteCall req \<notin> set (callsOf (SetMetaData c u Validate queueName qinput))"
  show "respOf (SetMetaData c u Validate queueName qinput) =
          \<lparr>SetMetaDataResponse.HttpResponse = None\<rparr>"
    using h by (cases rule: SetMetaData_cases[of c u Validate queueName qinput])
      (auto simp: callsOf_def respOf_def)
  show "errOf (SetMetaData c u Validate queueName qinput) \<noteq> None"
    using h by (cases rule: SetMetaData_cases[of c u Validate queueName qinput])
      (auto simp: callsOf_def errOf_def)
next
  assume h: "\<forall>req. ExecuteCall req \<notin> set (callsOf (AbortCopy c' u containerName blobName binput))"
  show "respOf (AbortCopy c' u containerName blobName binput) =
          \<lparr>CopyAbortResponse.HttpResponse = None\<rparr>"
    using h by (cases rule: AbortCopy_cases[of c' u containerName blobName binput])
      (auto simp: callsOf_def respOf_def)
  show "errOf (AbortCopy c' u containerName blobName binput) \<noteq> None"
    using h by (cases rule: AbortCopy_cases[of c' u containerName blobName binput])
      (auto simp: callsOf_def errOf_def)
qed

theorem no_response_before_execute_witness:
  "callsOf (SetMetaData (sdkClient (Inr \<lparr>StatusCode = 204\<rparr>)) id (\<lambda>m. Some ''bad key'') ''myqueue''
              \<lparr>MetaData = [(''a b'', ''c'')]\<rparr>) = [] \<and>
   respOf (SetMetaData (sdkClient (Inr \<lparr>StatusCode = 204\<rparr>)) id (\<lambda>m. Some ''bad key'') ''myqueue''
              \<lparr>MetaData = [(''a b'', ''c'')]\<rparr>) = \<lparr>SetMetaDataResponse.HttpResponse = None\<rparr> \<and>
   errOf (SetMetaData (sdkClient (Inr \<lparr>StatusCode = 204\<rparr>)) id (\<lambda>m. Some ''bad key'') ''myqueue''
              \<lparr>MetaData = [(''a b'', ''c'')]\<rparr>) \<noteq> None \<and>
   respOf (AbortCopy \<lparr>NewRequest = \<lambda>opts. Inl ''marshal failed'',
                        Execute = executeRequest (Inr \<lparr>StatusCode = 204\<rparr>)\<rparr>
             id ''mycontainer'' ''myblob.txt'' \<lparr>CopyID = ''abc123'', LeaseID = None\<rparr>) =
     \<lparr>CopyAbortResponse.HttpResponse = None\<rparr> \<and>
   errOf (AbortCopy \<lparr>NewRequest = \<lambda>opts. Inl ''marshal failed'',
                       Execute = executeRequest (Inr \<lparr>StatusCode = 204\<rparr>)\<rparr>
             id ''mycontainer'' ''myblob.txt'' \<lparr>CopyID = ''abc123'', LeaseID = None\<rparr>) \<noteq> None"
proof -
  note evals = SetMetaData_def AbortCopy_def callsOf_def ToLower_def isASCII_def lowerByte_def
    Let_def sdkClient_def executeRequest_def StatusNoContent_def MethodPut_def
  have q: "callsOf (SetMetaData (sdkClient (Inr \<lparr>StatusCode = 204\<rparr>)) id (\<lambda>m. Some ''bad key'')
             ''myqueue'' \<lparr>MetaData = [(''a b'', ''c'')]\<rparr>) = []"
    by (simp add: evals)
  have b: "callsOf (AbortCopy \<lparr>NewRequest = \<lambda>opts. Inl ''marshal failed'',
                        Execute = executeRequest (Inr \<lparr>StatusCode = 204\<rparr>)\<rparr>
             id ''mycontainer'' ''myblob.txt'' \<lparr>CopyID = ''abc123'', LeaseID = None\<rparr>) =
           [NewRequestCall \<lparr>ContentType = '''', ExpectedStatusCodes = [204], HttpMethod = ''PUT'',
              OptionsObject = copyAbortOptions \<lparr>CopyID = ''abc123'', LeaseID = None\<rparr>,
              Path = ''/mycontainer/myblob.txt''\<rparr>]"
    by (simp add: evals)
  show ?thesis
    using q b no_response_before_execute
      [where c = "sdkClient (Inr \<lparr>StatusCode = 204\<rparr>)" and u = id
         and Validate = "\<lambda>m. Some ''bad key''" and queueName = "''myqueue''"
         and qinput = "\<lparr>MetaData = [(''a b'', ''c'')]\<rparr>"
         and c' = "\<lparr>NewRequest = \<lambda>opts. Inl ''marshal failed'',
                     Execute = executeRequest (Inr \<lparr>StatusCode = 204\<rparr>)\<rparr>"
         and containerName = "''mycontainer''" and blobName = "''myblob.txt''"
         and binput = "\<lparr>CopyID = ''abc123'', LeaseID = None\<rparr>"]
    by simp
qed

section \<open>The lease ID is not validated\<close>

text \<open>
  C10. \<open>AbortCopy\<close> never validates \<open>input.LeaseID\<close>: whether validation stops the call, and
  with which error, is the same for every lease ID; the header \<open>x-ms-lease-id\<close> depends only
  on the pointer being non-nil. So a call whose \<open>LeaseID\<close> points to the empty string, its
  other inputs being valid, passes validation and its request carries \<open>x-ms-lease-id\<close>
  with the empty value.
\<close>

theorem lease_id_not_validated:
  "((callsOf (AbortCopy c u containerName blobName (input\<lparr>LeaseID := lease\<rparr>)) = []) =
      (callsOf (AbortCopy c u containerName blobName input) = [])) \<and>
   (callsOf (AbortCopy c u containerName blobName input) = [] \<longrightarrow>
      errOf (AbortCopy c u containerName blobName (input\<lparr>LeaseID := lease\<rparr>)) =
        errOf (AbortCopy c u containerName blobName input)) \<and>
   (containerName \<noteq> '''' \<and> ToLower u containerName = containerName \<and> blobName \<noteq> '''' \<and>
    CopyID input \<noteq> '''' \<longrightarrow>
      (\<exists>opts rest.
         callsOf (AbortCopy c u containerName blobName (input\<lparr>LeaseID := Some ''''\<rparr>)) =
           NewRequestCall opts # rest \<and>
         ToHeaders (OptionsObject opts) =
           [(''x-ms-copy-action'', ''abort''), (''x-ms-lease-id'', '''')] \<and>
         map_of (ToHeaders (OptionsObject opts)) ''x-ms-lease-id'' = Some ''''))"
proof -
  have indep: "(callsOf (AbortCopy c u containerName blobName inp) = []) =
                 (containerName = '''' \<or> ToLower u containerName \<noteq> containerName \<or>
                  blobName = '''' \<or> CopyID inp = '''')" for inp
  proof (cases "containerName = '''' \<or> ToLower u containerName \<noteq> containerName \<or>
                blobName = '''' \<or> CopyID inp = ''''")
    case True
    then show ?thesis by (simp add: callsOf_def AbortCopy_rejected[OF True])
  next
    case False
    then obtain rest where
      "callsOf (AbortCopy c u containerName blobName inp) =
         NewRequestCall \<lparr>ContentType = '''', ExpectedStatusCodes = [204], HttpMethod = ''PUT'',
                          OptionsObject = copyAbortOptions inp,
                          Path = ''/'' @ containerName @ ''/'' @ blobName\<rparr> # rest"
      using AbortCopy_calls[of containerName u blobName inp c] by blast
    then show ?thesis using False by simp
  qed
  have same_calls:
    "(callsOf (AbortCopy c u containerName blobName (input\<lparr>LeaseID := lease\<rparr>)) = []) =
       (callsOf (AbortCopy c u containerName blobName input) = [])"
    by (simp add: indep)
  have same_err:
    "errOf (AbortCopy c u containerName blobName (input\<lparr>LeaseID := lease\<rparr>)) =
       errOf (AbortCopy c u containerName blobName input)"
    if "callsOf (AbortCopy c u containerName blobName input) = []"
  proof -
    from that have bad: "containerName = '''' \<or> ToLower u containerName \<noteq> containerName \<or>
                         blobName = '''' \<or> CopyID input = ''''"
      by (simp add: indep)
    then have bad': "containerName = '''' \<or> ToLower u containerName \<noteq> containerName \<or>
                     blobName = '''' \<or> CopyID (input\<lparr>LeaseID := lease\<rparr>) = ''''"
      by simp
    show ?thesis
      by (simp add: errOf_def AbortCopy_rejected[OF bad] AbortCopy_rejected[OF bad'])
  qed
  have header:
    "\<exists>opts rest.
       callsOf (AbortCopy c u containerName blobName (input\<lparr>LeaseID := Some ''''\<rparr>)) =
         NewRequestCall opts # rest \<and>
       ToHeaders (OptionsObject opts) =
         [(''x-ms-copy-action'', ''abort''), (''x-ms-lease-id'', '''')] \<and>
       map_of (ToHeaders (OptionsObject opts)) ''x-ms-lease-id'' = Some ''''"
    if ok: "containerName \<noteq> '''' \<and> ToLower u containerName = containerName \<and> blobName \<noteq> '''' \<and>
            CopyID input \<noteq> ''''"
  proof -
    obtain rest where calls:
      "callsOf (AbortCopy c u containerName blobName (input\<lparr>LeaseID := Some ''''\<rparr>)) =
         NewRequestCall \<lparr>ContentType = '''', ExpectedStatusCodes = [204], HttpMethod = ''PUT'',
                          OptionsObject = copyAbortOptions (input\<lparr>LeaseID := Some ''''\<rparr>),
                          Path = ''/'' @ containerName @ ''/'' @ blobName\<rparr> # rest"
      using ok AbortCopy_calls[of containerName u blobName "input\<lparr>LeaseID := Some ''''\<rparr>" c]
      by auto
    show ?thesis
      unfolding calls
      by (intro exI conjI, rule refl) (simp_all add: Append_def Let_def)
  qed
  show ?thesis
    using same_calls same_err header by blast
qed

theorem lease_id_not_validated_witness:
  "ToLower id ''mycontainer'' = ''mycontainer'' \<and>
   callsOf (AbortCopy (sdkClient (Inr \<lparr>StatusCode = 204\<rparr>)) id '''' ''myblob.txt''
              \<lparr>CopyID = ''abc123'', LeaseID = None\<rparr>) = [] \<and>
   errOf (AbortCopy (sdkClient (Inr \<lparr>StatusCode = 204\<rparr>)) id '''' ''myblob.txt''
            \<lparr>CopyID = ''abc123'', LeaseID = Some ''''\<rparr>) =
     errOf (AbortCopy (sdkClient (Inr \<lparr>StatusCode = 204\<rparr>)) id '''' ''myblob.txt''
              \<lparr>CopyID = ''abc123'', LeaseID = None\<rparr>) \<and>
   (\<exists>opts rest.
      callsOf (AbortCopy (sdkClient (Inr \<lparr>StatusCode = 204\<rparr>)) id ''mycontainer'' ''myblob.txt''
                 \<lparr>CopyID = ''abc123'', LeaseID = Some ''''\<rparr>) = NewRequestCall opts # rest \<and>
      ToHeaders (OptionsObject opts) =
        [(''x-ms-copy-action'', ''abort''), (''x-ms-lease-id'', '''')])"
proof -
  have lower: "ToLower id ''mycontainer'' = ''mycontainer''"
    by (simp add: ToLower_def isASCII_def lowerByte_def)
  have none: "callsOf (AbortCopy (sdkClient (Inr \<lparr>StatusCode = 204\<rparr>)) id '''' ''myblob.txt''
              \<lparr>CopyID = ''abc123'', LeaseID = None\<rparr>) = []"
    by (simp add: AbortCopy_def callsOf_def)
  have same: "errOf (AbortCopy (sdkClient (Inr \<lparr>StatusCode = 204\<rparr>)) id '''' ''myblob.txt''
            \<lparr>CopyID = ''abc123'', LeaseID = Some ''''\<rparr>) =
     errOf (AbortCopy (sdkClient (Inr \<lparr>StatusCode = 204\<rparr>)) id '''' ''myblob.txt''
              \<lparr>CopyID = ''abc123'', LeaseID = None\<rparr>)"
    using none lease_id_not_validated
      [where c = "sdkClient (Inr \<lparr>StatusCode = 204\<rparr>)" and u = id and containerName = "''''"
         and blobName = "''myblob.txt''" and input = "\<lparr>CopyID = ''abc123'', LeaseID = None\<rparr>"
         and lease = "Some ''''"]
    by simp
  have carried: "\<exists>opts rest.
      callsOf (AbortCopy (sdkClient (Inr \<lparr>StatusCode = 204\<rparr>)) id ''mycontainer'' ''myblob.txt''
                 \<lparr>CopyID = ''abc123'', LeaseID = Some ''''\<rparr>) = NewRequestCall opts # rest \<and>
      ToHeaders (OptionsObject opts) =
        [(''x-ms-copy-action'', ''abort''), (''x-ms-lease-id'', '''')]"
    using lower lease_id_not_validated
      [where c = "sdkClient (Inr \<lparr>StatusCode = 204\<rparr>)" and u = id
         and containerName = "''mycontainer''" and blobName = "''myblob.txt''"
         and input = "\<lparr>CopyID = ''abc123'', LeaseID = None\<rparr>" and lease = "Some ''''"]
    by fastforce
  show ?thesis
    using lower none same carried by blast
qed

end
